theory Spec2Isabelle
  imports Complex_Main "HOL-Library.AList" "HOL-Library.Sublist"
begin

section \<open>The trade predictor (modules/trades/tradePredictor.js)\<close>

text \<open>
  The module is a JavaScript object \<open>TradePredictor\<close> of pure helper functions and one
  entry point, \<open>predictSetup\<close>. Two things it reads from outside its arguments are made
  parameters here: the history, which the code fetches with
  \<open>PatternAnalysis.getPredictionHistory()\<close>, and the wall clock, which it reads with
  \<open>new Date()\<close>.

  Numbers. JavaScript numbers are IEEE doubles. A number written in a record or in the
  code denotes the double nearest to it (\<open>dbl\<close>). Where a rounding error decides the
  outcome, the operations are those of doubles, that is the exact result rounded to
  the nearest double, ties to even, with overflow to an infinity and \<open>NaN\<close> for a
  missing operand or \<open>0 / 0\<close> (type \<open>jsnum\<close>): these are the comparison of a
  difference of quality scores with a tolerance, and the stop loss, the stop distance
  and the quotient that \<open>Math.floor\<close> cuts. Positive and negative zero are identified.
  The probability and the confidence are computed on exact reals; what is proved of
  them is a bound, or a value at an input where rounding to doubles changes no digit of
  the result.
\<close>

subsection \<open>Numbers\<close>

datatype jsnum = Fin real | PosInf | NegInf | NaN

text \<open>
  Rounding a real to an integer, ties to the even one.
\<close>

definition roundTiesToEven :: "real \<Rightarrow> int" where
  "roundTiesToEven y =
     (let f = \<lfloor>y\<rfloor>
      in if y - of_int f < 1 / 2 then f
         else if 1 / 2 < y - of_int f then f + 1
         else if even f then f else f + 1)"

text \<open>
  The binary exponent of a positive real: \<open>e\<close> with \<open>2^e \<le> x < 2^(e+1)\<close>, found by
  halving or doubling at most \<open>n\<close> times. Doubles have exponents from -1074 to 1023,
  so 2100 steps are enough: a result below -1022 is raised to -1022 (the subnormal
  numbers share the spacing of the smallest normal ones), and from 1024 on the rounded
  number overflows.
\<close>

fun binaryExponent :: "nat \<Rightarrow> real \<Rightarrow> int" where
  "binaryExponent 0 x = 0"
| "binaryExponent (Suc n) x =
     (if 2 \<le> x then binaryExponent n (x / 2) + 1
      else if x < 1 then binaryExponent n (x * 2) - 1
      else 0)"

text \<open>The spacing of the doubles around \<open>x\<close>: 53 significant bits.\<close>

definition ulp :: "real \<Rightarrow> real" where
  "ulp x = 2 powi (max (- 1022) (binaryExponent 2100 \<bar>x\<bar>) - 52)"

text \<open>
  The double nearest to a real, ties to even; a magnitude that rounds to \<open>2^1024\<close> or
  more is an infinity.
\<close>

definition dbl :: "real \<Rightarrow> jsnum" where
  "dbl x =
     (if x = 0 then Fin 0
      else let r = of_int (roundTiesToEven (x / ulp x)) * ulp x
           in if 2 ^ 1024 \<le> r then PosInf
              else if r \<le> - (2 ^ 1024) then NegInf
              else Fin r)"

text \<open>
  Reading a numeric property: \<open>undefined\<close> converts to \<open>NaN\<close> in arithmetic, a number
  is its double.
\<close>

fun toNumber :: "real option \<Rightarrow> jsnum" where
  "toNumber None = NaN"
| "toNumber (Some x) = dbl x"

text \<open>
  The operations \<open>*\<close>, \<open>-\<close> and \<open>/\<close> of doubles: the exact result of two finite
  operands is rounded by \<open>dbl\<close>. A finite non-zero number divided by zero is an
  infinity with the sign of the numerator (the only divisor that can be zero in the
  module comes out of \<open>Math.abs\<close>, so the zero is \<open>+0\<close>), and \<open>0 / 0\<close> is
  \<open>NaN\<close>.
\<close>

fun js_times :: "jsnum \<Rightarrow> jsnum \<Rightarrow> jsnum" where
  "js_times NaN _ = NaN"
| "js_times _ NaN = NaN"
| "js_times (Fin a) (Fin b) = dbl (a * b)"
| "js_times (Fin a) PosInf = (if a = 0 then NaN else if 0 < a then PosInf else NegInf)"
| "js_times (Fin a) NegInf = (if a = 0 then NaN else if 0 < a then NegInf else PosInf)"
| "js_times PosInf (Fin b) = (if b = 0 then NaN else if 0 < b then PosInf else NegInf)"
| "js_times NegInf (Fin b) = (if b = 0 then NaN else if 0 < b then NegInf else PosInf)"
| "js_times PosInf PosInf = PosInf"
| "js_times PosInf NegInf = NegInf"
| "js_times NegInf PosInf = NegInf"
| "js_times NegInf NegInf = PosInf"

fun js_minus :: "jsnum \<Rightarrow> jsnum \<Rightarrow> jsnum" where
  "js_minus NaN _ = NaN"
| "js_minus _ NaN = NaN"
| "js_minus (Fin a) (Fin b) = dbl (a - b)"
| "js_minus (Fin a) PosInf = NegInf"
| "js_minus (Fin a) NegInf = PosInf"
| "js_minus PosInf (Fin b) = PosInf"
| "js_minus NegInf (Fin b) = NegInf"
| "js_minus PosInf PosInf = NaN"
| "js_minus PosInf NegInf = PosInf"
| "js_minus NegInf PosInf = NegInf"
| "js_minus NegInf NegInf = NaN"

fun js_divide :: "jsnum \<Rightarrow> jsnum \<Rightarrow> jsnum" where
  "js_divide NaN _ = NaN"
| "js_divide _ NaN = NaN"
| "js_divide (Fin a) (Fin b) =
     (if b \<noteq> 0 then dbl (a / b)
      else if a = 0 then NaN else if 0 < a then PosInf else NegInf)"
| "js_divide (Fin a) PosInf = Fin 0"
| "js_divide (Fin a) NegInf = Fin 0"
| "js_divide PosInf (Fin b) = (if 0 \<le> b then PosInf else NegInf)"
| "js_divide NegInf (Fin b) = (if 0 \<le> b then NegInf else PosInf)"
| "js_divide PosInf PosInf = NaN"
| "js_divide PosInf NegInf = NaN"
| "js_divide NegInf PosInf = NaN"
| "js_divide NegInf NegInf = NaN"

text \<open>
  \<open>Math.abs\<close> and \<open>Math.floor\<close>, which are exact on doubles, and the comparison
  \<open><=\<close>, which is false when an operand is \<open>NaN\<close>.
\<close>

fun js_abs :: "jsnum \<Rightarrow> jsnum" where
  "js_abs (Fin a) = Fin \<bar>a\<bar>"
| "js_abs PosInf = PosInf"
| "js_abs NegInf = PosInf"
| "js_abs NaN = NaN"

fun js_floor :: "jsnum \<Rightarrow> jsnum" where
  "js_floor (Fin a) = Fin (of_int \<lfloor>a\<rfloor>)"
| "js_floor PosInf = PosInf"
| "js_floor NegInf = NegInf"
| "js_floor NaN = NaN"

fun js_le :: "jsnum \<Rightarrow> jsnum \<Rightarrow> bool" where
  "js_le NaN _ = False"
| "js_le _ NaN = False"
| "js_le (Fin a) (Fin b) = (a \<le> b)"
| "js_le NegInf _ = True"
| "js_le _ PosInf = True"
| "js_le PosInf _ = False"
| "js_le _ NegInf = False"

text \<open>A number that is not negative: a finite one from 0 on, or the positive infinity.\<close>

fun js_nonneg :: "jsnum \<Rightarrow> bool" where
  "js_nonneg (Fin a) = (0 \<le> a)"
| "js_nonneg PosInf = True"
| "js_nonneg NegInf = False"
| "js_nonneg NaN = False"

text \<open>
  \<open>Number(x.toFixed(2))\<close> on a finite number: \<open>toFixed\<close> takes the sign off, picks the
  integer \<open>n\<close> with \<open>n / 100\<close> nearest to the magnitude, the larger one on a tie, and
  puts the sign back. (From a magnitude of \<open>10^21\<close> on, \<open>toFixed\<close> returns the
  number's own string; a double that large is an integer, which this rounding leaves
  as it is.)
\<close>

definition toFixed2 :: "real \<Rightarrow> real" where
  "toFixed2 x =
     (if x < 0 then - (of_int \<lfloor>(- x) * 100 + 1 / 2\<rfloor> / 100)
      else of_int \<lfloor>x * 100 + 1 / 2\<rfloor> / 100)"

subsection \<open>Data\<close>

text \<open>
  A record of the history. \<open>timestamp\<close> is the time value of a \<open>Date\<close> in
  milliseconds, \<open>None\<close> when the record has none (the code tests
  \<open>if (trade.timestamp)\<close>).
\<close>

record trade =
  modelType :: string
  session :: string
  qualityScore :: real
  result :: string
  timestamp :: "int option"

text \<open>
  The setup handed to \<open>predictSetup\<close>. Every property may be missing (\<open>None\<close>);
  \<open>setupQualityScore\<close> is \<open>None\<close> as well when the property is not a number. The
  three properties that a history record also has carry the prefix \<open>setup\<close>.
\<close>

record tradeSetup =
  setupModelType :: "string option"
  setupSession :: "string option"
  setupQualityScore :: "real option"
  currentPrice :: "real option"
  volatility :: "string option"
  accountBalance :: "real option"
  maxRiskPercent :: "real option"
  timeframes :: "string list option"

record probability_result =
  probability :: real
  confidence :: real

record timeframe_info =
  trend :: string
  strength :: real

text \<open>
  The \<open>prediction\<close> object of a successful call; \<open>positionSize\<close> and
  \<open>timeframeAlignment\<close> are \<open>None\<close> for \<open>null\<close>, and \<open>predictionTimestamp\<close> is
  the property \<open>timestamp\<close> of the object.
\<close>

record prediction = probability_result +
  recommendedEntry :: real
  suggestedStopLoss :: jsnum
  adjustedStopLoss :: jsnum
  timeframeAlignment :: "(string \<times> timeframe_info) list option"
  positionSize :: "jsnum option"
  predictionTimestamp :: "string option"

text \<open>
  The two results with \<open>success: false\<close>: the message \<open>'Invalid setup data'\<close>, and
  the message of an exception caught by the \<open>try\<close> block.
\<close>

datatype error = InvalidSetup | Exception string

text \<open>
  The wall clock: \<open>clock k\<close> is what \<open>new Date()\<close> returns, in milliseconds, while
  the \<open>k\<close>-th matched record is weighted, and \<open>clock n\<close>, for \<open>n\<close> matched records,
  is the reading that stamps the result.
\<close>

type_synonym clock = "nat \<Rightarrow> int"

definition frozenClock :: "int \<Rightarrow> clock" where
  "frozenClock t = (\<lambda>k. t)"

text \<open>
  \<open>formatDate\<close> of utils/dateUtils, as the module exports it: its body is the comment
  \<open>// Formatting logic here\<close>, so it returns \<open>undefined\<close>. \<open>predictSetup\<close> below takes
  the formatter as a parameter, so nothing proved for every formatter depends on this.
\<close>

definition formatDate :: "int \<Rightarrow> string option" where
  "formatDate date = None"

subsection \<open>The functions of the module\<close>

text \<open>\<open>_validateSetup\<close>; a missing or empty string is falsy.\<close>

definition validateSetup :: "tradeSetup \<Rightarrow> bool" where
  "validateSetup s =
     ((case setupModelType s of None \<Rightarrow> False | Some m \<Rightarrow> m \<noteq> []) \<and>
      (case setupSession s of None \<Rightarrow> False | Some x \<Rightarrow> x \<noteq> []) \<and>
      (case setupQualityScore s of None \<Rightarrow> False | Some q \<Rightarrow> 0 \<le> q \<and> q \<le> 5))"

text \<open>
  The two arrow functions of \<open>_findSimilarTrades\<close>:
  \<open>Math.abs(trade.qualityScore - setup.qualityScore) <= 0.2\<close>, and the same with 0.5,
  on doubles. A comparison with a missing quality score is a comparison with \<open>NaN\<close>,
  which is false.
\<close>

definition exactMatch :: "tradeSetup \<Rightarrow> trade \<Rightarrow> bool" where
  "exactMatch s t =
     (Some (modelType t) = setupModelType s \<and>
      Some (session t) = setupSession s \<and>
      js_le (js_abs (js_minus (dbl (qualityScore t)) (toNumber (setupQualityScore s))))
            (dbl 0.2))"

definition broadMatch :: "tradeSetup \<Rightarrow> trade \<Rightarrow> bool" where
  "broadMatch s t =
     (Some (modelType t) = setupModelType s \<and>
      Some (session t) = setupSession s \<and>
      js_le (js_abs (js_minus (dbl (qualityScore t)) (toNumber (setupQualityScore s))))
            (dbl 0.5))"

definition findSimilarTrades :: "tradeSetup \<Rightarrow> trade list \<Rightarrow> trade list" where
  "findSimilarTrades s history =
     (if history = [] then []
      else let exactMatches = filter (exactMatch s) history
           in if 2 \<le> length exactMatches then take 5 exactMatches
              else take 5 (filter (broadMatch s) history))"

text \<open>\<open>_calculateTradeWeight\<close>, with the clock reading \<open>now\<close>.\<close>

definition calculateTradeWeight :: "int \<Rightarrow> trade \<Rightarrow> real" where
  "calculateTradeWeight now t =
     (let baseWeight = 0.2;
          qualityFactor = qualityScore t / 5;
          qualityWeight = baseWeight + qualityFactor * 1.3;
          recencyFactor =
            (case timestamp t of None \<Rightarrow> 1
             | Some ts \<Rightarrow>
                 let daysSince = real_of_int (now - ts) / (1000 * 60 * 60 * 24)
                 in max 0.8 (1 - daysSince / 30));
          finalWeight = toFixed2 (qualityWeight * recencyFactor)
      in max 0.2 finalWeight)"

text \<open>
  \<open>_calculateProbability\<close>. Its two local constants \<open>weights\<close> (here the list of
  the \<open>weight\<close> properties) and \<open>avgQuality\<close> are definitions of their own;
  \<open>reduce\<close> is a left fold from 0.
\<close>

definition weights :: "clock \<Rightarrow> trade list \<Rightarrow> real list" where
  "weights clk similarTrades =
     map (\<lambda>(k, t). calculateTradeWeight (clk k) t) (enumerate 0 similarTrades)"

definition avgQuality :: "clock \<Rightarrow> trade list \<Rightarrow> real" where
  "avgQuality clk similarTrades =
     foldl (\<lambda>sum w. sum + w) 0 (weights clk similarTrades)
       / real (length (weights clk similarTrades))"

definition calculateProbability :: "clock \<Rightarrow> trade list \<Rightarrow> probability_result" where
  "calculateProbability clk similarTrades =
     (if similarTrades = [] then \<lparr>probability = 0, confidence = 0.1\<rparr>
      else let successCount = length (filter (\<lambda>t. result t = ''Success'') similarTrades);
               totalCount = length similarTrades
           in \<lparr>probability = toFixed2 (real successCount / real totalCount),
               confidence = toFixed2 (max 0.15 (min (avgQuality clk similarTrades) 1))\<rparr>)"

text \<open>\<open>_calculateEntry\<close>: \<open>setup.currentPrice || 0\<close>.\<close>

definition calculateEntry :: "tradeSetup \<Rightarrow> real" where
  "calculateEntry s = (case currentPrice s of None \<Rightarrow> 0 | Some p \<Rightarrow> if p = 0 then 0 else p)"

text \<open>
  \<open>_calculateStopLoss\<close>: \<open>setup.currentPrice * (1 - riskPercentage)\<close>, and
  \<open>_adjustForVolatility\<close>: \<open>baseStopLoss * 0.85\<close>, on doubles.
\<close>

definition calculateStopLoss :: "tradeSetup \<Rightarrow> jsnum" where
  "calculateStopLoss s =
     (let riskPercentage = dbl 0.01
      in js_times (toNumber (currentPrice s)) (js_minus (Fin 1) riskPercentage))"

definition adjustForVolatility :: "tradeSetup \<Rightarrow> jsnum \<Rightarrow> jsnum" where
  "adjustForVolatility s baseStopLoss =
     (if volatility s = Some ''high'' then js_times baseStopLoss (dbl 0.85)
      else baseStopLoss)"

text \<open>
  \<open>_analyzeTimeframes\<close>: the \<open>reduce\<close> assigns the same placeholder to the property
  named by each label, so a label that occurs twice is one property.
\<close>

definition analyzeTimeframes :: "tradeSetup \<Rightarrow> (string \<times> timeframe_info) list option" where
  "analyzeTimeframes s =
     (case timeframes s of None \<Rightarrow> None
      | Some tfs \<Rightarrow>
          if tfs = [] then None
          else Some (foldl (\<lambda>acc tf. AList.update tf \<lparr>trend = ''bullish'', strength = 0.8\<rparr> acc)
                           [] tfs))"

text \<open>
  \<open>_calculatePositionSize\<close>, on doubles: a balance or a risk percentage that is
  missing or zero is falsy; there is no other guard.
\<close>

definition falsy :: "real option \<Rightarrow> bool" where
  "falsy v = (case v of None \<Rightarrow> True | Some x \<Rightarrow> dbl x = Fin 0)"

definition calculatePositionSize :: "tradeSetup \<Rightarrow> jsnum \<Rightarrow> jsnum option" where
  "calculatePositionSize s stopLoss =
     (if falsy (accountBalance s) \<or> falsy (maxRiskPercent s) then None
      else let riskAmount = js_times (toNumber (accountBalance s))
                              (js_divide (toNumber (maxRiskPercent s)) (Fin 100));
               stopDistance = js_abs (js_minus (toNumber (currentPrice s)) stopLoss)
           in Some (js_floor (js_divide riskAmount stopDistance)))"

text \<open>\<open>predictSetup\<close>, with the formatter, the clock and the history as parameters.\<close>

definition predictSetup ::
  "(int \<Rightarrow> string option) \<Rightarrow> clock \<Rightarrow> trade list \<Rightarrow> tradeSetup \<Rightarrow> error + prediction" where
  "predictSetup fmt clk history s =
     (if \<not> validateSetup s then Inl InvalidSetup
      else let similarTrades = findSimilarTrades s history;
               p = calculateProbability clk similarTrades;
               baseStopLoss = calculateStopLoss s
           in Inr \<lparr>probability = probability p,
                   confidence = confidence p,
                   recommendedEntry = calculateEntry s,
                   suggestedStopLoss = baseStopLoss,
                   adjustedStopLoss = adjustForVolatility s baseStopLoss,
                   timeframeAlignment = analyzeTimeframes s,
                   positionSize = calculatePositionSize s baseStopLoss,
                   predictionTimestamp = fmt (clk (length similarTrades))\<rparr>)"

subsection \<open>The selection as the specification words it\<close>

text \<open>
  The specification's filter of a tier: the records with equal modelType, equal session
  and a quality score at most \<open>tol\<close> away from the setup's, on the numbers as they are
  written.
\<close>

definition tier :: "real \<Rightarrow> tradeSetup \<Rightarrow> trade list \<Rightarrow> trade list" where
  "tier tol s history =
     filter (\<lambda>t. Some (modelType t) = setupModelType s \<and>
                 Some (session t) = setupSession s \<and>
                 (case setupQualityScore s of None \<Rightarrow> False
                  | Some q \<Rightarrow> \<bar>qualityScore t - q\<bar> \<le> tol)) history"

text \<open>
  The specification's selection: the first five records of tier 1 (tolerance 0.2) when
  it has at least two records, the first five of tier 2 (tolerance 0.5) otherwise.
\<close>

definition select_spec :: "tradeSetup \<Rightarrow> trade list \<Rightarrow> trade list" where
  "select_spec s history =
     (if 2 \<le> length (tier 0.2 s history) then take 5 (tier 0.2 s history)
      else take 5 (tier 0.5 s history))"

text \<open>
  The same two definitions with the distance of the two quality scores computed on
  doubles, as \<open>Math.abs(trade.qualityScore - setup.qualityScore)\<close> computes it, and
  compared with the double of the tolerance.
\<close>

definition tier_computed :: "real \<Rightarrow> tradeSetup \<Rightarrow> trade list \<Rightarrow> trade list" where
  "tier_computed tol s history =
     filter (\<lambda>t. Some (modelType t) = setupModelType s \<and>
                 Some (session t) = setupSession s \<and>
                 js_le (js_abs (js_minus (dbl (qualityScore t))
                                         (toNumber (setupQualityScore s))))
                       (dbl tol)) history"

definition select_computed :: "tradeSetup \<Rightarrow> trade list \<Rightarrow> trade list" where
  "select_computed s history =
     (if 2 \<le> length (tier_computed 0.2 s history) then take 5 (tier_computed 0.2 s history)
      else take 5 (tier_computed 0.5 s history))"

subsection \<open>The fixtures of tests/trades/tradePredictor.test.js\<close>

text \<open>
  The setup of the first test with its two London records, and the setup and the single
  record of the test of low confidence. None of the records has a timestamp.
\<close>

definition londonSetup :: tradeSetup where
  "londonSetup =
     \<lparr>setupModelType = Some ''FVG-RD'', setupSession = Some ''London'',
      setupQualityScore = Some 4.4, currentPrice = Some 100, volatility = None,
      accountBalance = None, maxRiskPercent = None, timeframes = None\<rparr>"

definition londonHistory :: "trade list" where
  "londonHistory =
     [\<lparr>modelType = ''FVG-RD'', session = ''London'', qualityScore = 4.5,
       result = ''Success'', timestamp = None\<rparr>,
      \<lparr>modelType = ''FVG-RD'', session = ''London'', qualityScore = 4.3,
       result = ''Success'', timestamp = None\<rparr>]"

definition asianSetup :: tradeSetup where
  "asianSetup =
     \<lparr>setupModelType = Some ''FVG-RD'', setupSession = Some ''Asian'',
      setupQualityScore = Some 4.0, currentPrice = Some 100, volatility = None,
      accountBalance = None, maxRiskPercent = None, timeframes = None\<rparr>"

definition asianHistory :: "trade list" where
  "asianHistory =
     [\<lparr>modelType = ''FVG-RD'', session = ''Asian'', qualityScore = 4.0,
       result = ''Success'', timestamp = None\<rparr>]"

section \<open>Auxiliary facts\<close>

subsection \<open>Rounding to two decimals\<close>

lemma toFixed2_lower:
  assumes "0 \<le> x" and "real_of_int k / 100 \<le> x"
  shows "real_of_int k / 100 \<le> toFixed2 x"
proof -
  have "real_of_int k \<le> x * 100 + 1 / 2" using assms by simp
  then have "k \<le> \<lfloor>x * 100 + 1 / 2\<rfloor>" by (simp add: le_floor_iff)
  then have "real_of_int k \<le> real_of_int \<lfloor>x * 100 + 1 / 2\<rfloor>" by simp
  then show ?thesis using assms(1) by (simp add: toFixed2_def divide_right_mono)
qed

lemma toFixed2_upper:
  assumes "0 \<le> x" and "x \<le> real_of_int k / 100"
  shows "toFixed2 x \<le> real_of_int k / 100"
proof -
  have "x * 100 + 1 / 2 < real_of_int k + 1" using assms by simp
  then have "\<lfloor>x * 100 + 1 / 2\<rfloor> \<le> k" by (simp only: floor_le_iff)
  then have "real_of_int \<lfloor>x * 100 + 1 / 2\<rfloor> \<le> real_of_int k" by simp
  then show ?thesis using assms(1) by (simp add: toFixed2_def divide_right_mono)
qed

lemma toFixed2_unit: "0 \<le> x \<Longrightarrow> x \<le> 1 \<Longrightarrow> 0 \<le> toFixed2 x \<and> toFixed2 x \<le> 1"
  using toFixed2_lower [of x 0] toFixed2_upper [of x 100] by simp

lemma toFixed2_fifth: "1 / 5 \<le> x \<Longrightarrow> 1 / 5 \<le> toFixed2 x"
  using toFixed2_lower [of x 20] by simp

lemma calculateTradeWeight_floor: "1 / 5 \<le> calculateTradeWeight now t"
  by (simp add: calculateTradeWeight_def Let_def)

lemma foldl_plus_sum_list: "foldl (\<lambda>sum w. sum + w) a ws = a + sum_list (ws :: real list)"
  by (induction ws arbitrary: a) simp_all

lemma length_weights: "length (weights clk ts) = length ts"
  by (simp add: weights_def)

lemma weights_floor:
  assumes "w \<in> set (weights clk ts)"
  shows "1 / 5 \<le> w"
proof -
  from assms obtain k t where "w = calculateTradeWeight (clk k) t"
    by (auto simp: weights_def)
  then show ?thesis by (simp only: calculateTradeWeight_floor)
qed

lemma sum_list_floor:
  "\<forall>w \<in> set ws. c \<le> w \<Longrightarrow> real (length ws) * c \<le> sum_list (ws :: real list)"
proof (induction ws)
  case Nil
  show ?case by simp
next
  case (Cons a ws)
  then have "c \<le> a" and "real (length ws) * c \<le> sum_list ws" by simp_all
  then show ?case by (simp add: distrib_right)
qed

lemma avgQuality_floor:
  assumes "ts \<noteq> []"
  shows "1 / 5 \<le> avgQuality clk ts"
proof -
  let ?ws = "weights clk ts"
  have n: "0 < real (length ?ws)" using assms by (simp add: length_weights)
  have "real (length ?ws) * (1 / 5) \<le> sum_list ?ws"
    by (rule sum_list_floor) (blast intro: weights_floor)
  then have "1 / 5 \<le> sum_list ?ws / real (length ?ws)"
    using n by (simp add: pos_le_divide_eq mult.commute)
  then show ?thesis by (simp add: avgQuality_def foldl_plus_sum_list)
qed

lemma confidence_nonempty:
  assumes "ts \<noteq> []"
  shows "1 / 5 \<le> confidence (calculateProbability clk ts)"
    and "confidence (calculateProbability clk ts) \<le> 1"
proof -
  let ?c = "max 0.15 (min (avgQuality clk ts) 1)"
  have c: "1 / 5 \<le> ?c" "?c \<le> 1" using avgQuality_floor [OF assms, of clk] by auto
  have eq: "confidence (calculateProbability clk ts) = toFixed2 ?c"
    using assms by (simp add: calculateProbability_def Let_def)
  show "1 / 5 \<le> confidence (calculateProbability clk ts)"
    unfolding eq using c(1) by (rule toFixed2_fifth)
  show "confidence (calculateProbability clk ts) \<le> 1"
    unfolding eq using toFixed2_unit [of ?c] c by linarith
qed

lemma probability_unit:
  "0 \<le> probability (calculateProbability clk ts) \<and> probability (calculateProbability clk ts) \<le> 1"
proof (cases "ts = []")
  case True
  then show ?thesis by (simp add: calculateProbability_def)
next
  case False
  let ?r = "real (length (filter (\<lambda>t. result t = ''Success'') ts)) / real (length ts)"
  have "length (filter (\<lambda>t. result t = ''Success'') ts) \<le> length ts" by simp
  then have "0 \<le> ?r" "?r \<le> 1" using False by (simp_all add: divide_le_eq_1)
  then show ?thesis using False toFixed2_unit [of ?r]
    by (simp add: calculateProbability_def Let_def)
qed

subsection \<open>The selection and the entry point\<close>

lemma exactMatch_tier: "filter (exactMatch s) history = tier_computed 0.2 s history"
  unfolding tier_computed_def by (rule filter_cong) (simp_all add: exactMatch_def)

lemma broadMatch_tier: "filter (broadMatch s) history = tier_computed 0.5 s history"
  unfolding tier_computed_def by (rule filter_cong) (simp_all add: broadMatch_def)

lemma subseq_take_filter: "subseq (take n (filter P xs)) xs"
proof -
  have "subseq (take n (filter P xs)) (filter P xs)"
    by (rule prefix_imp_subseq [OF take_is_prefix])
  also have "subseq (filter P xs) xs" by simp
  finally show ?thesis .
qed

lemma findSimilarTrades_empty:
  assumes "\<forall>t \<in> set history. \<not> exactMatch s t \<and> \<not> broadMatch s t"
  shows "findSimilarTrades s history = []"
proof -
  have "filter (exactMatch s) history = []" "filter (broadMatch s) history = []"
    using assms by (simp_all add: filter_empty_conv)
  then show ?thesis by (simp add: findSimilarTrades_def)
qed

lemma predictSetup_valid:
  assumes "validateSetup s"
  shows "predictSetup fmt clk history s =
     Inr \<lparr>probability = probability (calculateProbability clk (findSimilarTrades s history)),
          confidence = confidence (calculateProbability clk (findSimilarTrades s history)),
          recommendedEntry = calculateEntry s,
          suggestedStopLoss = calculateStopLoss s,
          adjustedStopLoss = adjustForVolatility s (calculateStopLoss s),
          timeframeAlignment = analyzeTimeframes s,
          positionSize = calculatePositionSize s (calculateStopLoss s),
          predictionTimestamp = fmt (clk (length (findSimilarTrades s history)))\<rparr>"
  using assms by (simp add: predictSetup_def Let_def)

lemma predictSetup_suggestedStopLoss:
  "predictSetup fmt clk history s = Inr p \<Longrightarrow> suggestedStopLoss p = calculateStopLoss s"
  by (auto simp: predictSetup_def Let_def split: if_splits)

lemma validateSetup_maxRiskPercent [simp]:
  "validateSetup (s\<lparr>maxRiskPercent := r\<rparr>) = validateSetup s"
  by (simp add: validateSetup_def)

lemma calculateStopLoss_maxRiskPercent [simp]:
  "calculateStopLoss (s\<lparr>maxRiskPercent := r\<rparr>) = calculateStopLoss s"
  by (simp add: calculateStopLoss_def)

subsection \<open>The clock\<close>

lemma calculateTradeWeight_no_timestamp:
  "timestamp t = None \<Longrightarrow> calculateTradeWeight now t = calculateTradeWeight now' t"
  by (simp add: calculateTradeWeight_def)

lemma nth_weights:
  "k < length ts \<Longrightarrow> weights clk ts ! k = calculateTradeWeight (clk k) (ts ! k)"
  by (simp add: weights_def nth_enumerate_eq)

lemma weights_cong:
  assumes "\<forall>k < length ts. timestamp (ts ! k) \<noteq> None \<longrightarrow> clk1 k = clk2 k"
  shows "weights clk1 ts = weights clk2 ts"
proof (rule nth_equalityI)
  show "length (weights clk1 ts) = length (weights clk2 ts)" by (simp add: length_weights)
next
  fix k assume "k < length (weights clk1 ts)"
  then have k: "k < length ts" by (simp add: length_weights)
  show "weights clk1 ts ! k = weights clk2 ts ! k"
  proof (cases "timestamp (ts ! k)")
    case None
    then show ?thesis
      using k by (simp add: nth_weights calculateTradeWeight_no_timestamp [of _ "clk1 k" "clk2 k"])
  next
    case (Some a)
    then have "clk1 k = clk2 k" using assms k by simp
    then show ?thesis using k by (simp add: nth_weights)
  qed
qed

subsection \<open>Rounding to doubles\<close>

text \<open>
  The equations that let the simplifier compute \<open>dbl\<close> at a numeral, and the sign
  of a rounded number.
\<close>

lemma binaryExponent_numeral:
  "binaryExponent (numeral k) x =
     (if 2 \<le> x then binaryExponent (pred_numeral k) (x / 2) + 1
      else if x < 1 then binaryExponent (pred_numeral k) (x * 2) - 1
      else 0)"
  by (simp add: numeral_eq_Suc)

lemmas dbl_eval = dbl_def ulp_def roundTiesToEven_def binaryExponent_numeral Let_def

lemma dbl_fifth: "dbl (1 / 5) = Fin (3602879701896397 / 2 ^ 54)"
  by (simp add: dbl_eval)

lemma roundTiesToEven_nonneg: "0 \<le> y \<Longrightarrow> 0 \<le> roundTiesToEven y"
proof -
  assume "0 \<le> y"
  then have "0 \<le> \<lfloor>y\<rfloor>" by simp
  then show ?thesis by (simp add: roundTiesToEven_def Let_def)
qed

lemma ulp_pos: "0 < ulp x"
  by (simp add: ulp_def)

lemma dbl_nonneg:
  assumes "0 \<le> x"
  shows "js_nonneg (dbl x)"
proof -
  have "0 \<le> x / ulp x" using assms ulp_pos [of x] by simp
  then have "0 \<le> roundTiesToEven (x / ulp x)" by (rule roundTiesToEven_nonneg)
  then have "0 \<le> real_of_int (roundTiesToEven (x / ulp x)) * ulp x"
    using ulp_pos [of x] by simp
  then show ?thesis by (simp add: dbl_def Let_def)
qed

lemma js_times_nonneg:
  "0 < a \<Longrightarrow> js_nonneg b \<Longrightarrow> js_nonneg (js_times (Fin a) b)"
  by (cases b) (auto simp: dbl_nonneg)

lemma js_divide_nonneg:
  "js_nonneg a \<Longrightarrow> 0 < d \<Longrightarrow> js_nonneg (js_divide a (Fin d))"
  by (cases a) (auto simp: dbl_nonneg)

lemma js_floor_nonneg:
  "js_nonneg a \<Longrightarrow> (\<exists>n. 0 \<le> n \<and> js_floor a = Fin (of_int n)) \<or> js_floor a = PosInf"
  by (cases a) auto

subsection \<open>Evaluation\<close>

lemmas model_defs = predictSetup_def validateSetup_def findSimilarTrades_def exactMatch_def
  broadMatch_def calculateProbability_def avgQuality_def weights_def calculateTradeWeight_def
  toFixed2_def calculateEntry_def calculateStopLoss_def adjustForVolatility_def
  analyzeTimeframes_def calculatePositionSize_def falsy_def enumerate_eq_zip dbl_eval

lemma validateSetup_london: "validateSetup londonSetup"
  by (simp add: validateSetup_def londonSetup_def)

lemma validateSetup_asian: "validateSetup asianSetup"
  by (simp add: validateSetup_def asianSetup_def)

lemma findSimilarTrades_london: "findSimilarTrades londonSetup londonHistory = londonHistory"
  by (simp add: findSimilarTrades_def exactMatch_def londonSetup_def londonHistory_def dbl_eval)

lemma no_match_asian_london:
  "\<forall>t \<in> set londonHistory. \<not> exactMatch asianSetup t \<and> \<not> broadMatch asianSetup t"
  by (simp add: londonHistory_def asianSetup_def exactMatch_def broadMatch_def)

section \<open>The claims\<close>

text \<open>
  Claim C1. For every setup that passes validation, every history and every clock,
  \<open>predictSetup\<close> succeeds with a probability in \<open>[0, 1]\<close> and a confidence in
  \<open>[0.1, 1]\<close>.
\<close>

theorem predictSetup_ranges:
  assumes "validateSetup s"
  shows "\<exists>p. predictSetup fmt clk history s = Inr p \<and>
             0 \<le> probability p \<and> probability p \<le> 1 \<and>
             0.1 \<le> confidence p \<and> confidence p \<le> 1"
proof -
  let ?m = "findSimilarTrades s history"
  have conf: "0.1 \<le> confidence (calculateProbability clk ?m) \<and>
              confidence (calculateProbability clk ?m) \<le> 1"
  proof (cases "?m = []")
    case True
    then show ?thesis by (simp add: calculateProbability_def)
  next
    case False
    from confidence_nonempty [OF False, of clk] show ?thesis by simp
  qed
  show ?thesis
    unfolding predictSetup_valid [OF assms]
    using conf probability_unit [of clk ?m] by simp
qed

theorem predictSetup_ranges_witness:
  "validateSetup londonSetup \<and>
   (\<exists>p. predictSetup formatDate (frozenClock 0) londonHistory londonSetup = Inr p \<and>
        0 \<le> probability p \<and> probability p \<le> 1 \<and>
        0.1 \<le> confidence p \<and> confidence p \<le> 1)"
  using predictSetup_ranges [OF validateSetup_london] validateSetup_london by blast

text \<open>
  Claim C2, as stated, fails: the code compares the distance of the two quality scores
  as doubles compute it. At a setup of quality 4.4, the record of quality 4.2 has the
  computed distance 0.20000000000000018 and is not in the first filter, which is left
  with the record of quality 4.6 alone; so the code returns the three records of the
  second filter, where the selection of the specification returns the two records
  that are at most 0.2 away.
\<close>

theorem findSimilarTrades_rounding_counterexample:
  "findSimilarTrades
     \<lparr>setupModelType = Some ''FVG-RD'', setupSession = Some ''London'',
      setupQualityScore = Some 4.4, currentPrice = Some 100, volatility = None,
      accountBalance = None, maxRiskPercent = None, timeframes = None\<rparr>
     [\<lparr>modelType = ''FVG-RD'', session = ''London'', qualityScore = 4.2,
       result = ''Success'', timestamp = None\<rparr>,
      \<lparr>modelType = ''FVG-RD'', session = ''London'', qualityScore = 4.6,
       result = ''Success'', timestamp = None\<rparr>,
      \<lparr>modelType = ''FVG-RD'', session = ''London'', qualityScore = 4.8,
       result = ''Failure'', timestamp = None\<rparr>]
   = [\<lparr>modelType = ''FVG-RD'', session = ''London'', qualityScore = 4.2,
       result = ''Success'', timestamp = None\<rparr>,
      \<lparr>modelType = ''FVG-RD'', session = ''London'', qualityScore = 4.6,
       result = ''Success'', timestamp = None\<rparr>,
      \<lparr>modelType = ''FVG-RD'', session = ''London'', qualityScore = 4.8,
       result = ''Failure'', timestamp = None\<rparr>] \<and>
   select_spec
     \<lparr>setupModelType = Some ''FVG-RD'', setupSession = Some ''London'',
      setupQualityScore = Some 4.4, currentPrice = Some 100, volatility = None,
      accountBalance = None, maxRiskPercent = None, timeframes = None\<rparr>
     [\<lparr>modelType = ''FVG-RD'', session = ''London'', qualityScore = 4.2,
       result = ''Success'', timestamp = None\<rparr>,
      \<lparr>modelType = ''FVG-RD'', session = ''London'', qualityScore = 4.6,
       result = ''Success'', timestamp = None\<rparr>,
      \<lparr>modelType = ''FVG-RD'', session = ''London'', qualityScore = 4.8,
       result = ''Failure'', timestamp = None\<rparr>]
   = [\<lparr>modelType = ''FVG-RD'', session = ''London'', qualityScore = 4.2,
       result = ''Success'', timestamp = None\<rparr>,
      \<lparr>modelType = ''FVG-RD'', session = ''London'', qualityScore = 4.6,
       result = ''Success'', timestamp = None\<rparr>]"
  by (simp add: findSimilarTrades_def exactMatch_def broadMatch_def select_spec_def tier_def
        dbl_eval)

text \<open>
  Claim C2, amended. \<open>_findSimilarTrades\<close> is the two-tier selection on computed
  distances: with tier 1 the records of equal modelType, equal session and
  \<open>Math.abs(trade.qualityScore - setup.qualityScore)\<close>, as doubles compute it, at most
  the double 0.2, it returns the first five records of tier 1, in the order of the
  history, when tier 1 has at least two records, and otherwise the first five records
  of the same filter with 0.5. The bound is inclusive: a record whose computed distance
  is the double 0.2 is in tier 1. The result is a subsequence of the history of at most
  five records.
\<close>

theorem findSimilarTrades_select:
  "findSimilarTrades s history = select_computed s history \<and>
   (setupModelType s = Some (modelType t) \<and> setupSession s = Some (session t) \<and>
    setupQualityScore s = Some q \<and>
    js_abs (js_minus (dbl (qualityScore t)) (dbl q)) = dbl 0.2 \<and> t \<in> set history
      \<longrightarrow> t \<in> set (tier_computed 0.2 s history)) \<and>
   subseq (findSimilarTrades s history) history \<and>
   length (findSimilarTrades s history) \<le> 5"
proof -
  have sel: "findSimilarTrades s history = select_computed s history"
    by (cases "history = []")
       (simp_all add: findSimilarTrades_def select_computed_def Let_def
          exactMatch_tier broadMatch_tier, simp add: tier_computed_def)
  have bnd: "setupModelType s = Some (modelType t) \<and> setupSession s = Some (session t) \<and>
    setupQualityScore s = Some q \<and>
    js_abs (js_minus (dbl (qualityScore t)) (dbl q)) = dbl 0.2 \<and> t \<in> set history
      \<longrightarrow> t \<in> set (tier_computed 0.2 s history)"
    by (simp add: tier_computed_def dbl_fifth)
  have sub: "subseq (select_computed s history) history"
    by (simp add: select_computed_def tier_computed_def subseq_take_filter)
  have len: "length (select_computed s history) \<le> 5" by (simp add: select_computed_def)
  from sel bnd sub len show ?thesis by simp
qed

text \<open>
  At a setup of quality 0.2, the records of quality 0.4 and 0 have the computed distance
  0.2 and are tier 1; the record of another session is not selected.
\<close>

theorem findSimilarTrades_select_witness:
  "js_abs (js_minus (dbl 0.4) (dbl 0.2)) = dbl 0.2 \<and>
   js_abs (js_minus (dbl 0) (dbl 0.2)) = dbl 0.2 \<and>
   findSimilarTrades
     \<lparr>setupModelType = Some ''FVG-RD'', setupSession = Some ''London'',
      setupQualityScore = Some 0.2, currentPrice = Some 100, volatility = None,
      accountBalance = None, maxRiskPercent = None, timeframes = None\<rparr>
     [\<lparr>modelType = ''FVG-RD'', session = ''London'', qualityScore = 0.4,
       result = ''Success'', timestamp = None\<rparr>,
      \<lparr>modelType = ''FVG-RD'', session = ''NY'', qualityScore = 0.2,
       result = ''Failure'', timestamp = None\<rparr>,
      \<lparr>modelType = ''FVG-RD'', session = ''London'', qualityScore = 0,
       result = ''Failure'', timestamp = None\<rparr>]
   = [\<lparr>modelType = ''FVG-RD'', session = ''London'', qualityScore = 0.4,
       result = ''Success'', timestamp = None\<rparr>,
      \<lparr>modelType = ''FVG-RD'', session = ''London'', qualityScore = 0,
       result = ''Failure'', timestamp = None\<rparr>]"
  using findSimilarTrades_select
    [of "\<lparr>setupModelType = Some ''FVG-RD'', setupSession = Some ''London'',
      setupQualityScore = Some 0.2, currentPrice = Some 100, volatility = None,
      accountBalance = None, maxRiskPercent = None, timeframes = None\<rparr>"
     "[\<lparr>modelType = ''FVG-RD'', session = ''London'', qualityScore = 0.4,
       result = ''Success'', timestamp = None\<rparr>,
      \<lparr>modelType = ''FVG-RD'', session = ''NY'', qualityScore = 0.2,
       result = ''Failure'', timestamp = None\<rparr>,
      \<lparr>modelType = ''FVG-RD'', session = ''London'', qualityScore = 0,
       result = ''Failure'', timestamp = None\<rparr>]"
     "\<lparr>modelType = ''FVG-RD'', session = ''London'', qualityScore = 0.4,
       result = ''Success'', timestamp = None\<rparr>" "0.2"]
  by (simp add: select_computed_def tier_computed_def dbl_eval)

text \<open>
  Claim C3. \<open>predictSetup\<close> fails exactly when the modelType is missing or empty, the
  session is missing or empty, or the quality score is missing or outside \<open>[0, 5]\<close>;
  the bounds 0 and 5 are accepted. The failure is the validation error, and nothing
  about the history or the other properties of the setup makes the call fail.
\<close>

theorem predictSetup_fails_iff:
  "isl (predictSetup fmt clk history s) =
     (setupModelType s = None \<or> setupModelType s = Some [] \<or>
      setupSession s = None \<or> setupSession s = Some [] \<or>
      (case setupQualityScore s of None \<Rightarrow> True | Some q \<Rightarrow> q < 0 \<or> 5 < q)) \<and>
   (\<forall>e. predictSetup fmt clk history s = Inl e \<longrightarrow> e = InvalidSetup)"
  by (auto simp: predictSetup_def validateSetup_def Let_def split: option.splits)

text \<open>
  Quality 0 and quality 5 succeed on an empty history with no price and no balance;
  quality 5.5 fails.
\<close>

theorem predictSetup_fails_iff_witness:
  "\<not> isl (predictSetup formatDate (frozenClock 0) []
       \<lparr>setupModelType = Some ''FVG-RD'', setupSession = Some ''London'',
        setupQualityScore = Some 0, currentPrice = None, volatility = None,
        accountBalance = None, maxRiskPercent = None, timeframes = None\<rparr>) \<and>
   \<not> isl (predictSetup formatDate (frozenClock 0) []
       \<lparr>setupModelType = Some ''FVG-RD'', setupSession = Some ''London'',
        setupQualityScore = Some 5, currentPrice = None, volatility = None,
        accountBalance = None, maxRiskPercent = None, timeframes = None\<rparr>) \<and>
   predictSetup formatDate (frozenClock 0) londonHistory
       \<lparr>setupModelType = Some ''FVG-RD'', setupSession = Some ''London'',
        setupQualityScore = Some 5.5, currentPrice = Some 100, volatility = None,
        accountBalance = None, maxRiskPercent = None, timeframes = None\<rparr>
     = Inl InvalidSetup"
  using predictSetup_fails_iff [of formatDate "frozenClock 0" "[]"
       "\<lparr>setupModelType = Some ''FVG-RD'', setupSession = Some ''London'',
        setupQualityScore = Some 0, currentPrice = None, volatility = None,
        accountBalance = None, maxRiskPercent = None, timeframes = None\<rparr>"]
    predictSetup_fails_iff [of formatDate "frozenClock 0" "[]"
       "\<lparr>setupModelType = Some ''FVG-RD'', setupSession = Some ''London'',
        setupQualityScore = Some 5, currentPrice = None, volatility = None,
        accountBalance = None, maxRiskPercent = None, timeframes = None\<rparr>"]
    predictSetup_fails_iff [of formatDate "frozenClock 0" londonHistory
       "\<lparr>setupModelType = Some ''FVG-RD'', setupSession = Some ''London'',
        setupQualityScore = Some 5.5, currentPrice = Some 100, volatility = None,
        accountBalance = None, maxRiskPercent = None, timeframes = None\<rparr>"]
  by (auto simp: isl_def)

text \<open>
  Claim C4. On the two London records and the London setup of the first test, the code
  returns probability 1 and confidence 1: the two weights are 1.37 and 1.32, and their
  average 1.345 is cut to 1. The test and the claim expect confidence 0.2.
\<close>

theorem predictSetup_london:
  "predictSetup fmt clk londonHistory londonSetup =
     Inr \<lparr>probability = 1, confidence = 1, recommendedEntry = 100,
          suggestedStopLoss = Fin 99, adjustedStopLoss = Fin 99,
          timeframeAlignment = None, positionSize = None,
          predictionTimestamp = fmt (clk 2)\<rparr>"
  by (simp add: model_defs londonHistory_def londonSetup_def numeral_2_eq_2)

text \<open>
  Claim C5. On the single Asian record and the Asian setup of the test of low
  confidence, the code returns confidence 1: the weight of the record is 1.24, cut
  to 1. The test and the claim expect confidence 0.1.
\<close>

theorem predictSetup_asian:
  "predictSetup fmt clk asianHistory asianSetup =
     Inr \<lparr>probability = 1, confidence = 1, recommendedEntry = 100,
          suggestedStopLoss = Fin 99, adjustedStopLoss = Fin 99,
          timeframeAlignment = None, positionSize = None,
          predictionTimestamp = fmt (clk 1)\<rparr>"
  by (simp add: model_defs asianHistory_def asianSetup_def)

text \<open>
  Claim C6. For every setup that passes validation, when the history is empty or none
  of its records passes either filter, \<open>predictSetup\<close> succeeds with probability 0 and
  confidence 0.1.
\<close>

theorem predictSetup_no_match:
  assumes "validateSetup s"
    and "history = [] \<or> (\<forall>t \<in> set history. \<not> exactMatch s t \<and> \<not> broadMatch s t)"
  shows "\<exists>p. predictSetup fmt clk history s = Inr p \<and>
             probability p = 0 \<and> confidence p = 0.1"
proof -
  have "findSimilarTrades s history = []"
    using assms(2) findSimilarTrades_empty [of history s]
    by (auto simp: findSimilarTrades_def)
  then show ?thesis
    unfolding predictSetup_valid [OF assms(1)]
    by (simp add: calculateProbability_def)
qed

text \<open>The Asian setup on the London records, which it does not match, and on no record.\<close>

theorem predictSetup_no_match_witness:
  "validateSetup asianSetup \<and>
   list_all (\<lambda>t. \<not> exactMatch asianSetup t \<and> \<not> broadMatch asianSetup t) londonHistory \<and>
   (\<exists>p. predictSetup formatDate (frozenClock 0) londonHistory asianSetup = Inr p \<and>
        probability p = 0 \<and> confidence p = 0.1) \<and>
   (\<exists>p. predictSetup formatDate (frozenClock 0) [] asianSetup = Inr p \<and>
        probability p = 0 \<and> confidence p = 0.1)"
proof -
  note n = no_match_asian_london
  then have l: "list_all (\<lambda>t. \<not> exactMatch asianSetup t \<and> \<not> broadMatch asianSetup t) londonHistory"
    by (simp add: list_all_iff)
  from validateSetup_asian n l
    predictSetup_no_match [of asianSetup londonHistory formatDate "frozenClock 0"]
    predictSetup_no_match [of asianSetup "[]" formatDate "frozenClock 0"]
  show ?thesis by blast
qed

text \<open>
  Claim C7. For every valid setup the suggested stop loss is the product
  \<open>currentPrice * (1 - 0.01)\<close> of doubles, whatever the setup's maxRiskPercent is,
  and the adjusted stop loss is the suggested one times 0.85 when the volatility is
  \<open>'high'\<close> and the suggested one otherwise. At price 100 and high volatility the
  suggested stop loss is 99 and the adjusted one, the double 84.14999999999999, is
  below it.
\<close>

theorem stopLoss_values:
  assumes "validateSetup s"
  shows "\<exists>p. predictSetup fmt clk history s = Inr p \<and>
           suggestedStopLoss p =
             js_times (toNumber (currentPrice s)) (js_minus (Fin 1) (dbl 0.01)) \<and>
           (\<forall>r. \<exists>p'. predictSetup fmt clk history (s\<lparr>maxRiskPercent := r\<rparr>) = Inr p' \<and>
                     suggestedStopLoss p' = suggestedStopLoss p) \<and>
           adjustedStopLoss p =
             (if volatility s = Some ''high'' then js_times (suggestedStopLoss p) (dbl 0.85)
              else suggestedStopLoss p) \<and>
           (currentPrice s = Some 100 \<and> volatility s = Some ''high'' \<longrightarrow>
              suggestedStopLoss p = Fin 99 \<and>
              adjustedStopLoss p = Fin (5921529822550425 / 2 ^ 46) \<and>
              (5921529822550425 / 2 ^ 46 :: real) < 99)"
proof -
  define p where "p =
     \<lparr>probability = probability (calculateProbability clk (findSimilarTrades s history)),
      confidence = confidence (calculateProbability clk (findSimilarTrades s history)),
      recommendedEntry = calculateEntry s,
      suggestedStopLoss = calculateStopLoss s,
      adjustedStopLoss = adjustForVolatility s (calculateStopLoss s),
      timeframeAlignment = analyzeTimeframes s,
      positionSize = calculatePositionSize s (calculateStopLoss s),
      predictionTimestamp = fmt (clk (length (findSimilarTrades s history)))\<rparr>"
  have ret: "predictSetup fmt clk history s = Inr p"
    unfolding p_def using assms by (rule predictSetup_valid)
  have sug: "suggestedStopLoss p = calculateStopLoss s"
    and adj: "adjustedStopLoss p = adjustForVolatility s (calculateStopLoss s)"
    by (simp_all add: p_def)
  have c1: "suggestedStopLoss p =
      js_times (toNumber (currentPrice s)) (js_minus (Fin 1) (dbl 0.01))"
    unfolding sug by (simp add: calculateStopLoss_def)
  have c2: "\<exists>p'. predictSetup fmt clk history (s\<lparr>maxRiskPercent := r\<rparr>) = Inr p' \<and>
                suggestedStopLoss p' = suggestedStopLoss p" for r
    unfolding sug using assms by (simp add: predictSetup_valid)
  have c3: "adjustedStopLoss p =
      (if volatility s = Some ''high'' then js_times (suggestedStopLoss p) (dbl 0.85)
       else suggestedStopLoss p)"
    unfolding sug adj by (simp add: adjustForVolatility_def)
  have c4: "suggestedStopLoss p = Fin 99 \<and>
            adjustedStopLoss p = Fin (5921529822550425 / 2 ^ 46) \<and>
            (5921529822550425 / 2 ^ 46 :: real) < 99"
    if "currentPrice s = Some 100" "volatility s = Some ''high''"
    unfolding sug adj using that
    by (simp add: adjustForVolatility_def calculateStopLoss_def dbl_eval)
  from ret c1 c2 c3 c4 show ?thesis by blast
qed

text \<open>The London setup of the tests with high volatility.\<close>

theorem stopLoss_values_witness:
  "validateSetup (londonSetup\<lparr>volatility := Some ''high''\<rparr>) \<and>
   currentPrice (londonSetup\<lparr>volatility := Some ''high''\<rparr>) = Some 100 \<and>
   (\<exists>p. predictSetup formatDate (frozenClock 0) londonHistory
          (londonSetup\<lparr>volatility := Some ''high''\<rparr>) = Inr p \<and>
        suggestedStopLoss p = Fin 99 \<and>
        adjustedStopLoss p = Fin (5921529822550425 / 2 ^ 46))"
proof -
  let ?s = "londonSetup\<lparr>volatility := Some ''high''\<rparr>"
  have v: "validateSetup ?s" by (simp add: validateSetup_def londonSetup_def)
  have c: "currentPrice ?s = Some 100" by (simp add: londonSetup_def)
  have h: "volatility ?s = Some ''high''" by simp
  from stopLoss_values [OF v, of formatDate "frozenClock 0" londonHistory]
  obtain p where "predictSetup formatDate (frozenClock 0) londonHistory ?s = Inr p"
    and "currentPrice ?s = Some 100 \<and> volatility ?s = Some ''high'' \<longrightarrow>
              suggestedStopLoss p = Fin 99 \<and>
              adjustedStopLoss p = Fin (5921529822550425 / 2 ^ 46) \<and>
              (5921529822550425 / 2 ^ 46 :: real) < 99"
    by blast
  then show ?thesis using v c h by blast
qed

text \<open>
  Claim C8, as stated, fails: \<open>_calculatePositionSize\<close> guards the balance and the risk
  percentage only. With both present and a price of 0 the stop loss is 0, the stop
  distance is 0, and the position size is the infinity of the division by it, not
  \<open>null\<close>.
\<close>

theorem positionSize_zero_distance_counterexample:
  "predictSetup formatDate (frozenClock 0) []
     \<lparr>setupModelType = Some ''FVG-RD'', setupSession = Some ''London'',
      setupQualityScore = Some 4.4, currentPrice = Some 0, volatility = None,
      accountBalance = Some 10000, maxRiskPercent = Some 1, timeframes = None\<rparr>
   = Inr \<lparr>probability = 0, confidence = 0.1, recommendedEntry = 0,
          suggestedStopLoss = Fin 0, adjustedStopLoss = Fin 0,
          timeframeAlignment = None, positionSize = Some PosInf,
          predictionTimestamp = None\<rparr>"
  by (simp add: model_defs formatDate_def)

text \<open>
  Claim C8, amended. For every valid setup the position size is \<open>null\<close> exactly when
  the balance or the risk percentage is missing or zero. Otherwise it is
  \<open>Math.floor\<close> of \<open>accountBalance * (maxRiskPercent / 100)\<close> divided by the stop
  distance \<open>|currentPrice - suggestedStopLoss|\<close>, each operation on doubles. When the
  balance and the risk percentage are positive and the computed stop distance is
  positive, it is an integer that is not negative, or the infinity of an overflow.
\<close>

theorem positionSize_amended:
  assumes "validateSetup s"
  shows "\<exists>p. predictSetup fmt clk history s = Inr p \<and>
           ((positionSize p = None) =
              (accountBalance s = None \<or> toNumber (accountBalance s) = Fin 0 \<or>
               maxRiskPercent s = None \<or> toNumber (maxRiskPercent s) = Fin 0)) \<and>
           (positionSize p \<noteq> None \<longrightarrow>
              positionSize p =
                Some (js_floor
                  (js_divide
                     (js_times (toNumber (accountBalance s))
                        (js_divide (toNumber (maxRiskPercent s)) (Fin 100)))
                     (js_abs (js_minus (toNumber (currentPrice s)) (suggestedStopLoss p)))))) \<and>
           (\<forall>b r d. toNumber (accountBalance s) = Fin b \<and> 0 < b \<and>
                toNumber (maxRiskPercent s) = Fin r \<and> 0 < r \<and>
                js_abs (js_minus (toNumber (currentPrice s)) (suggestedStopLoss p)) = Fin d \<and>
                0 < d \<longrightarrow>
              (\<exists>n. 0 \<le> n \<and> positionSize p = Some (Fin (of_int n))) \<or>
              positionSize p = Some PosInf)"
proof -
  let ?sl = "calculateStopLoss s"
  let ?q = "js_divide
              (js_times (toNumber (accountBalance s))
                 (js_divide (toNumber (maxRiskPercent s)) (Fin 100)))
              (js_abs (js_minus (toNumber (currentPrice s)) ?sl))"
  define p where "p =
     \<lparr>probability = probability (calculateProbability clk (findSimilarTrades s history)),
      confidence = confidence (calculateProbability clk (findSimilarTrades s history)),
      recommendedEntry = calculateEntry s,
      suggestedStopLoss = calculateStopLoss s,
      adjustedStopLoss = adjustForVolatility s (calculateStopLoss s),
      timeframeAlignment = analyzeTimeframes s,
      positionSize = calculatePositionSize s (calculateStopLoss s),
      predictionTimestamp = fmt (clk (length (findSimilarTrades s history)))\<rparr>"
  have ret: "predictSetup fmt clk history s = Inr p"
    unfolding p_def using assms by (rule predictSetup_valid)
  have sug: "suggestedStopLoss p = ?sl"
    and pos: "positionSize p = calculatePositionSize s ?sl"
    by (simp_all add: p_def)
  have null: "(positionSize p = None) =
              (accountBalance s = None \<or> toNumber (accountBalance s) = Fin 0 \<or>
               maxRiskPercent s = None \<or> toNumber (maxRiskPercent s) = Fin 0)"
    unfolding pos
    by (auto simp: calculatePositionSize_def falsy_def Let_def split: option.splits)
  have val: "positionSize p = Some (js_floor ?q)" if "positionSize p \<noteq> None"
    using that unfolding pos
    by (simp add: calculatePositionSize_def Let_def split: if_splits)
  have nonneg: "(\<exists>n. 0 \<le> n \<and> positionSize p = Some (Fin (of_int n))) \<or>
                positionSize p = Some PosInf"
    if b: "toNumber (accountBalance s) = Fin b" "0 < b"
      and r: "toNumber (maxRiskPercent s) = Fin r" "0 < r"
      and d: "js_abs (js_minus (toNumber (currentPrice s)) ?sl) = Fin d" "0 < d"
    for b r d
  proof -
    have "accountBalance s \<noteq> None"
      using b(1) by (cases "accountBalance s") simp_all
    moreover have "maxRiskPercent s \<noteq> None"
      using r(1) by (cases "maxRiskPercent s") simp_all
    ultimately have "positionSize p \<noteq> None"
      using b r null by simp
    then have v: "positionSize p = Some (js_floor ?q)" by (rule val)
    have "js_nonneg (js_divide (Fin r) (Fin 100))"
      using r(2) by (simp add: dbl_nonneg)
    then have "js_nonneg (js_times (Fin b) (js_divide (Fin r) (Fin 100)))"
      using b(2) by (rule js_times_nonneg [rotated])
    then have "js_nonneg ?q"
      unfolding b(1) r(1) d(1) using d(2) by (rule js_divide_nonneg)
    from js_floor_nonneg [OF this] v show ?thesis by simp
  qed
  have c3: "positionSize p \<noteq> None \<longrightarrow>
              positionSize p =
                Some (js_floor
                  (js_divide
                     (js_times (toNumber (accountBalance s))
                        (js_divide (toNumber (maxRiskPercent s)) (Fin 100)))
                     (js_abs (js_minus (toNumber (currentPrice s)) (suggestedStopLoss p)))))"
    unfolding sug using val by blast
  have c4: "\<forall>b r d. toNumber (accountBalance s) = Fin b \<and> 0 < b \<and>
                toNumber (maxRiskPercent s) = Fin r \<and> 0 < r \<and>
                js_abs (js_minus (toNumber (currentPrice s)) (suggestedStopLoss p)) = Fin d \<and>
                0 < d \<longrightarrow>
              (\<exists>n. 0 \<le> n \<and> positionSize p = Some (Fin (of_int n))) \<or>
              positionSize p = Some PosInf"
    unfolding sug using nonneg by blast
  from ret null c3 c4 show ?thesis by (intro exI [of _ p] conjI)
qed

text \<open>
  Balance 10000, risk 1 percent, price 1: the stop loss is the double 0.99, the computed
  stop distance is 0.010000000000000009, and the position size is 9999.
\<close>

theorem positionSize_amended_witness:
  "validateSetup
     (londonSetup\<lparr>currentPrice := Some 1, accountBalance := Some 10000,
                  maxRiskPercent := Some 1\<rparr>) \<and>
   (\<exists>p. predictSetup formatDate (frozenClock 0) londonHistory
          (londonSetup\<lparr>currentPrice := Some 1, accountBalance := Some 10000,
                       maxRiskPercent := Some 1\<rparr>) = Inr p \<and>
        suggestedStopLoss p = Fin (4458563631096791 / 2 ^ 52) \<and>
        js_abs (js_minus (Fin 1) (suggestedStopLoss p)) = Fin (45035996273705 / 2 ^ 52) \<and>
        positionSize p = Some (Fin 9999))"
proof -
  let ?s = "londonSetup\<lparr>currentPrice := Some 1, accountBalance := Some 10000,
                        maxRiskPercent := Some 1\<rparr>"
  have v: "validateSetup ?s" by (simp add: validateSetup_def londonSetup_def)
  have sl: "calculateStopLoss ?s = Fin (4458563631096791 / 2 ^ 52)"
    by (simp add: calculateStopLoss_def londonSetup_def dbl_eval)
  have d: "js_abs (js_minus (Fin 1) (Fin (4458563631096791 / 2 ^ 52))) =
           Fin (45035996273705 / 2 ^ 52)"
    by (simp add: dbl_eval)
  have b: "toNumber (accountBalance ?s) = Fin 10000" by (simp add: dbl_eval)
  have r: "toNumber (maxRiskPercent ?s) = Fin 1" by (simp add: dbl_eval)
  have c: "toNumber (currentPrice ?s) = Fin 1" by (simp add: dbl_eval)
  have q: "js_floor (js_divide (js_times (Fin 10000) (js_divide (Fin 1) (Fin 100)))
             (Fin (45035996273705 / 2 ^ 52))) = Fin 9999"
    by (simp add: dbl_eval)
  have "\<exists>p. predictSetup formatDate (frozenClock 0) londonHistory ?s = Inr p \<and>
        suggestedStopLoss p = Fin (4458563631096791 / 2 ^ 52) \<and>
        js_abs (js_minus (Fin 1) (suggestedStopLoss p)) = Fin (45035996273705 / 2 ^ 52) \<and>
        positionSize p = Some (Fin 9999)"
    using positionSize_amended [OF v, of formatDate "frozenClock 0" londonHistory]
  proof (elim exE conjE)
    fix p
    assume p: "predictSetup formatDate (frozenClock 0) londonHistory ?s = Inr p"
      and n: "(positionSize p = None) =
              (accountBalance ?s = None \<or> toNumber (accountBalance ?s) = Fin 0 \<or>
               maxRiskPercent ?s = None \<or> toNumber (maxRiskPercent ?s) = Fin 0)"
      and f: "positionSize p \<noteq> None \<longrightarrow>
              positionSize p =
                Some (js_floor
                  (js_divide
                     (js_times (toNumber (accountBalance ?s))
                        (js_divide (toNumber (maxRiskPercent ?s)) (Fin 100)))
                     (js_abs (js_minus (toNumber (currentPrice ?s)) (suggestedStopLoss p)))))"
    have s: "suggestedStopLoss p = Fin (4458563631096791 / 2 ^ 52)"
      using predictSetup_suggestedStopLoss [OF p] sl by simp
    have "positionSize p \<noteq> None" unfolding n b r by simp
    with f have "positionSize p = Some (Fin 9999)"
      unfolding b r c s d q by simp
    with p s d show ?thesis by auto
  qed
  with v show ?thesis by simp
qed

text \<open>
  Claim C9, as stated, fails: the weight of a record with a timestamp depends on the
  clock. The same setup and the same one-record history give confidence 0.72 when the
  clock reads the record's own time, and 0.58 thirty days later.
\<close>

theorem predictSetup_clock_counterexample:
  "predictSetup formatDate (frozenClock 0)
     [\<lparr>modelType = ''FVG-RD'', session = ''Asian'', qualityScore = 2,
       result = ''Success'', timestamp = Some 0\<rparr>]
     \<lparr>setupModelType = Some ''FVG-RD'', setupSession = Some ''Asian'',
      setupQualityScore = Some 2, currentPrice = Some 100, volatility = None,
      accountBalance = None, maxRiskPercent = None, timeframes = None\<rparr>
   = Inr \<lparr>probability = 1, confidence = 0.72, recommendedEntry = 100,
          suggestedStopLoss = Fin 99, adjustedStopLoss = Fin 99,
          timeframeAlignment = None, positionSize = None,
          predictionTimestamp = None\<rparr> \<and>
   predictSetup formatDate (frozenClock 2592000000)
     [\<lparr>modelType = ''FVG-RD'', session = ''Asian'', qualityScore = 2,
       result = ''Success'', timestamp = Some 0\<rparr>]
     \<lparr>setupModelType = Some ''FVG-RD'', setupSession = Some ''Asian'',
      setupQualityScore = Some 2, currentPrice = Some 100, volatility = None,
      accountBalance = None, maxRiskPercent = None, timeframes = None\<rparr>
   = Inr \<lparr>probability = 1, confidence = 0.58, recommendedEntry = 100,
          suggestedStopLoss = Fin 99, adjustedStopLoss = Fin 99,
          timeframeAlignment = None, positionSize = None,
          predictionTimestamp = None\<rparr>"
  by (simp add: model_defs formatDate_def frozenClock_def)

text \<open>
  Claim C9, amended. Two calls of \<open>predictSetup\<close> with the same setup and the same
  history return the same result when the clock reads the same in both at each matched
  record that has a timestamp, and the formatted time of the result is the same. In
  particular the probability and the confidence do not depend on the clock when no
  matched record has a timestamp.
\<close>

theorem predictSetup_same_readings:
  assumes "\<forall>k < length (findSimilarTrades s history).
             timestamp (findSimilarTrades s history ! k) \<noteq> None \<longrightarrow> clk1 k = clk2 k"
    and "fmt (clk1 (length (findSimilarTrades s history))) =
         fmt (clk2 (length (findSimilarTrades s history)))"
  shows "predictSetup fmt clk1 history s = predictSetup fmt clk2 history s"
proof -
  have "weights clk1 (findSimilarTrades s history) = weights clk2 (findSimilarTrades s history)"
    using assms(1) by (rule weights_cong)
  then have "calculateProbability clk1 (findSimilarTrades s history) =
             calculateProbability clk2 (findSimilarTrades s history)"
    by (simp add: calculateProbability_def avgQuality_def)
  then show ?thesis using assms(2) by (simp add: predictSetup_def Let_def)
qed

text \<open>
  The London records have no timestamp: the result is the same thirty days apart.
\<close>

theorem predictSetup_same_readings_witness:
  "map timestamp (findSimilarTrades londonSetup londonHistory) = [None, None] \<and>
   formatDate (frozenClock 0 2) = formatDate (frozenClock 2592000000 2) \<and>
   predictSetup formatDate (frozenClock 0) londonHistory londonSetup =
   predictSetup formatDate (frozenClock 2592000000) londonHistory londonSetup"
proof -
  note m = findSimilarTrades_london
  have a: "\<forall>k < length (findSimilarTrades londonSetup londonHistory).
      timestamp (findSimilarTrades londonSetup londonHistory ! k) \<noteq> None
        \<longrightarrow> frozenClock 0 k = frozenClock 2592000000 k"
    unfolding m by (simp add: londonHistory_def less_Suc_eq numeral_2_eq_2)
  have b: "formatDate (frozenClock 0 (length (findSimilarTrades londonSetup londonHistory))) =
   formatDate (frozenClock 2592000000 (length (findSimilarTrades londonSetup londonHistory)))"
    by (simp add: formatDate_def)
  have t: "map timestamp (findSimilarTrades londonSetup londonHistory) = [None, None]"
    unfolding m by (simp add: londonHistory_def)
  have f: "formatDate (frozenClock 0 2) = formatDate (frozenClock 2592000000 2)"
    by (simp add: formatDate_def)
  from predictSetup_same_readings [OF a b] t f show ?thesis by blast
qed

text \<open>
  Claim C10. When the list of matched records is not empty, every weight is at least
  0.2, so their average is at least 0.2, the lower clamp at 0.15 changes nothing
  (\<open>max 0.15 (min avg 1) = min avg 1\<close>) and the confidence is at least 0.2. So no
  confidence that \<open>_calculateProbability\<close> or \<open>predictSetup\<close> returns lies strictly
  between 0.1 and 0.2.
\<close>

theorem confidence_floor:
  "(similarTrades \<noteq> [] \<longrightarrow>
      (\<forall>w \<in> set (weights clk similarTrades). 0.2 \<le> w) \<and>
      0.2 \<le> avgQuality clk similarTrades \<and>
      max 0.15 (min (avgQuality clk similarTrades) 1) = min (avgQuality clk similarTrades) 1 \<and>
      0.2 \<le> confidence (calculateProbability clk similarTrades)) \<and>
   \<not> (0.1 < confidence (calculateProbability clk similarTrades) \<and>
      confidence (calculateProbability clk similarTrades) < 0.2) \<and>
   (\<forall>p. predictSetup fmt clk history s = Inr p \<longrightarrow>
      \<not> (0.1 < confidence p \<and> confidence p < 0.2))"
proof -
  have ne: "(\<forall>w \<in> set (weights clk ts). 0.2 \<le> w) \<and> 0.2 \<le> avgQuality clk ts \<and>
      max 0.15 (min (avgQuality clk ts) 1) = min (avgQuality clk ts) 1 \<and>
      0.2 \<le> confidence (calculateProbability clk ts)" if "ts \<noteq> []" for ts
  proof -
    have w: "\<forall>w \<in> set (weights clk ts). 0.2 \<le> w" using weights_floor [of _ clk ts] by simp
    have a: "1 / 5 \<le> avgQuality clk ts" using that by (rule avgQuality_floor)
    have c: "1 / 5 \<le> confidence (calculateProbability clk ts)"
      using that by (rule confidence_nonempty)
    from w a c show ?thesis by (simp add: max_def min_def)
  qed
  have gap: "\<not> (0.1 < confidence (calculateProbability clk ts) \<and>
      confidence (calculateProbability clk ts) < 0.2)" for ts
  proof (cases "ts = []")
    case True
    then show ?thesis by (simp add: calculateProbability_def)
  next
    case False
    from ne [OF False] show ?thesis by simp
  qed
  have ret: "\<not> (0.1 < confidence p \<and> confidence p < 0.2)"
    if "predictSetup fmt clk history s = Inr p" for p
  proof -
    from that have "confidence p = confidence (calculateProbability clk (findSimilarTrades s history))"
      by (auto simp: predictSetup_def Let_def split: if_splits)
    then show ?thesis using gap [of "findSimilarTrades s history"] by simp
  qed
  from ne [of similarTrades] gap [of similarTrades] ret show ?thesis by blast
qed

text \<open>The single Asian record: its weight is 1.24, and the confidence returned is 1.\<close>

theorem confidence_floor_witness:
  "asianHistory \<noteq> [] \<and> weights (frozenClock 0) asianHistory = [1.24] \<and>
   avgQuality (frozenClock 0) asianHistory = 1.24 \<and>
   0.2 \<le> confidence (calculateProbability (frozenClock 0) asianHistory)"
proof -
  have n: "asianHistory \<noteq> []" by (simp add: asianHistory_def)
  have w: "weights (frozenClock 0) asianHistory = [1.24]"
    by (simp add: weights_def calculateTradeWeight_def toFixed2_def asianHistory_def)
  have a: "avgQuality (frozenClock 0) asianHistory = 1.24"
    by (simp add: avgQuality_def w)
  from confidence_floor [of asianHistory "frozenClock 0" formatDate asianHistory asianSetup] n
  have "0.2 \<le> confidence (calculateProbability (frozenClock 0) asianHistory)" by blast
  then show ?thesis using n w a by simp
qed

end
